theory Spec2Isabelle
  imports Main
begin

section \<open>Data model of \<open>src/app/page.js\<close>\<close>

text \<open>
  The component \<open>Home\<close> keeps five pieces of React state (\<open>user\<close>, \<open>bookmarks\<close>,
  \<open>title\<close>, \<open>url\<close>, \<open>loading\<close>) and talks to the Supabase client. A row of the table
  \<open>bookmarks\<close> has the columns the code reads or writes: \<open>id\<close>, \<open>title\<close>, \<open>url\<close>,
  \<open>user_id\<close>, \<open>created_at\<close>. The field names carry a prefix because the component state
  has fields \<open>title\<close> and \<open>url\<close> of its own.
\<close>

type_synonym user_id = string
type_synonym bookmark_id = nat
type_synonym channel = nat

record bookmark =
  bm_id :: bookmark_id
  bm_title :: string
  bm_url :: string
  bm_user_id :: user_id
  bm_created_at :: int

text \<open>The user object of a session: the code reads \<open>user.id\<close> and \<open>user.email\<close>.\<close>

record account =
  acc_id :: user_id
  acc_email :: string

text \<open>
  The calls the component sends to the Supabase client that suspend at an \<open>await\<close>:
  the query of \<open>fetchBookmarks\<close>, the insert of \<open>addBookmark\<close>, the delete of
  \<open>deleteBookmark\<close> and \<open>auth.signOut\<close> of \<open>handleLogout\<close>.
\<close>

datatype request =
    SelectBookmarks user_id
  | InsertBookmark string string user_id
  | DeleteBookmark bookmark_id
  | SignOut

text \<open>
  A reply \<open>{ data, error }\<close> of the client: \<open>Inl\<close> holds the message of \<open>error\<close>,
  \<open>Inr\<close> holds \<open>data\<close>. The data of a query or an insert is an array of rows or
  \<open>null\<close> (\<open>None\<close>).
\<close>

type_synonym 'a reply = "string + 'a"

text \<open>
  Errors thrown while a handler runs: the TypeError of reading a property of
  \<open>undefined\<close>, and the error the client throws from \<open>.on()\<close>.
\<close>

datatype js_error = TypeError string | ChannelError

text \<open>
  The state threaded through the handlers. The first five fields are the React state of
  lines 7 to 11. The others record the effects of the handlers on their environment:
  \<open>console\<close> the lines written by \<open>console.error\<close>, \<open>alerts\<close> the messages shown by
  \<open>alert\<close>, \<open>channels\<close> the change-feed callbacks that are live on the client, each
  with the handle of its channel and the \<open>userId\<close> it closes over, \<open>next_channel\<close> the
  handle of the next channel, \<open>issued\<close> the requests sent so far, each paired with the
  value of \<open>bookmarks\<close> at the moment the request left, and \<open>uncaught\<close> the errors
  thrown out of a handler, which ends the handler at that statement.
\<close>

record state =
  user :: "account option"
  bookmarks :: "bookmark list"
  title :: string
  url :: string
  loading :: bool
  console :: "string list"
  alerts :: "string list"
  channels :: "(channel \<times> user_id) list"
  next_channel :: channel
  issued :: "(request \<times> bookmark list) list"
  uncaught :: "js_error list"

definition initial :: state where
  "initial = \<lparr>user = None, bookmarks = [], title = [], url = [], loading = True,
     console = [], alerts = [], channels = [], next_channel = 0, issued = [],
     uncaught = []\<rparr>"

section \<open>Effects\<close>

definition setBookmarks :: "bookmark list \<Rightarrow> state \<Rightarrow> state" where
  "setBookmarks xs s = s\<lparr>bookmarks := xs\<rparr>"

definition setUser :: "account option \<Rightarrow> state \<Rightarrow> state" where
  "setUser u s = s\<lparr>user := u\<rparr>"

definition setLoading :: "bool \<Rightarrow> state \<Rightarrow> state" where
  "setLoading b s = s\<lparr>loading := b\<rparr>"

definition setTitle :: "string \<Rightarrow> state \<Rightarrow> state" where
  "setTitle t s = s\<lparr>title := t\<rparr>"

definition setUrl :: "string \<Rightarrow> state \<Rightarrow> state" where
  "setUrl u s = s\<lparr>url := u\<rparr>"

definition console_error :: "string \<Rightarrow> state \<Rightarrow> state" where
  "console_error m s = s\<lparr>console := console s @ [m]\<rparr>"

definition alert :: "string \<Rightarrow> state \<Rightarrow> state" where
  "alert m s = s\<lparr>alerts := alerts s @ [m]\<rparr>"

definition issue :: "request \<Rightarrow> state \<Rightarrow> state" where
  "issue r s = s\<lparr>issued := issued s @ [(r, bookmarks s)]\<rparr>"

definition throw_error :: "js_error \<Rightarrow> state \<Rightarrow> state" where
  "throw_error e s = s\<lparr>uncaught := uncaught s @ [e]\<rparr>"

section \<open>\<open>fetchBookmarks\<close> (lines 46 to 55)\<close>

text \<open>
  An async function runs up to its \<open>await\<close>, and its continuation runs when the reply
  arrives; other handlers may run in between. Each async handler is therefore two
  functions: \<open>_begin\<close> runs the code before the \<open>await\<close> and sends the request, \<open>_reply\<close>
  is the continuation. The variables the continuation closes over are its arguments.
\<close>

definition fetchBookmarks_begin :: "user_id \<Rightarrow> state \<Rightarrow> state" where
  "fetchBookmarks_begin userId s = issue (SelectBookmarks userId) s"

definition fetchBookmarks_reply :: "bookmark list option reply \<Rightarrow> state \<Rightarrow> state" where
  "fetchBookmarks_reply r s =
     (case r of
        Inl error \<Rightarrow> console_error (''Error fetching: '' @ error) s
      | Inr data \<Rightarrow> setBookmarks (case data of None \<Rightarrow> [] | Some rows \<Rightarrow> rows) s)"

definition fetchBookmarks :: "user_id \<Rightarrow> bookmark list option reply \<Rightarrow> state \<Rightarrow> state" where
  "fetchBookmarks userId r s = fetchBookmarks_reply r (fetchBookmarks_begin userId s)"

text \<open>
  The query that \<open>fetchBookmarks\<close> builds, read on a table:
  \<open>.eq("user_id", userId)\<close> keeps the rows of that owner and
  \<open>.order("created_at", { ascending: false })\<close> returns them by \<open>created_at\<close>, largest first.
\<close>

definition select_bookmarks :: "bookmark list \<Rightarrow> user_id \<Rightarrow> bookmark list" where
  "select_bookmarks tbl userId =
     rev (sort_key bm_created_at (filter (\<lambda>b. bm_user_id b = userId) tbl))"


section \<open>\<open>subscribeToChanges\<close> (lines 57 to 72)\<close>

text \<open>
  \<open>subscribeToChanges\<close> asks the client for the channel of the topic
  \<open>realtime-bookmarks\<close>, adds a callback that calls \<open>fetchBookmarks(userId)\<close>,
  subscribes, and returns a closure that removes that channel. The closure is
  represented by the handle of the channel: calling it is \<open>removeChannel\<close> at that
  handle.

  The topic is the same in every call, and the client keeps one channel for a topic:
  while no channel exists the call creates one, and this callback is its only one; while
  one exists, \<open>supabase.channel\<close> returns that channel. The client is not part of the
  repository, and what its \<open>.on()\<close> does on a channel that is already subscribed
  depends on the client: it adds the callback beside those already there (\<open>Stacking\<close>),
  or it throws (\<open>Throwing\<close>). That behaviour is a parameter of the model. A channel
  exists exactly when \<open>channels\<close> holds a callback, since a channel is created with one
  and removed as a whole.
\<close>

datatype client = Stacking | Throwing

definition removeChannel :: "channel \<Rightarrow> state \<Rightarrow> state" where
  "removeChannel h s = s\<lparr>channels := filter (\<lambda>c. fst c \<noteq> h) (channels s)\<rparr>"

definition subscribeToChanges ::
    "client \<Rightarrow> user_id \<Rightarrow> state \<Rightarrow> js_error + channel \<times> state" where
  "subscribeToChanges cl userId s =
     (case channels s of
        [] \<Rightarrow>
          Inr (next_channel s,
               s\<lparr>channels := [(next_channel s, userId)],
                 next_channel := Suc (next_channel s)\<rparr>)
      | existing # _ \<Rightarrow>
          (case cl of
             Stacking \<Rightarrow>
               Inr (fst existing, s\<lparr>channels := channels s @ [(fst existing, userId)]\<rparr>)
           | Throwing \<Rightarrow> Inl ChannelError))"

text \<open>A change event of the table runs every live callback.\<close>

definition feed_event :: "state \<Rightarrow> state" where
  "feed_event s = fold (\<lambda>c. fetchBookmarks_begin (snd c)) (channels s) s"

section \<open>The session effect (lines 13 to 44)\<close>

text \<open>
  \<open>getSession_reply\<close> is the continuation of \<open>getSession\<close> after
  \<open>await supabase.auth.getSession()\<close>; its argument is \<open>data.session\<close>'s user, if any.
  \<open>onAuthStateChange\<close> is the listener of lines 29 to 38; its argument is
  \<open>session?.user ?? null\<close>. Both call \<open>subscribeToChanges\<close> as a statement, so the
  closure it returns is dropped (\<open>snd\<close>); when it throws, the \<open>setLoading(false)\<close> that
  follows is not reached.
\<close>

definition getSession_reply :: "client \<Rightarrow> account option \<Rightarrow> state \<Rightarrow> state" where
  "getSession_reply cl session s =
     (case session of
        Some currentUser \<Rightarrow>
          (case subscribeToChanges cl (acc_id currentUser)
                  (fetchBookmarks_begin (acc_id currentUser) (setUser (Some currentUser) s)) of
             Inl e \<Rightarrow>
               throw_error e
                 (fetchBookmarks_begin (acc_id currentUser) (setUser (Some currentUser) s))
           | Inr r \<Rightarrow> setLoading False (snd r))
      | None \<Rightarrow> setLoading False s)"

definition onAuthStateChange :: "client \<Rightarrow> account option \<Rightarrow> state \<Rightarrow> state" where
  "onAuthStateChange cl session s =
     (case session of
        Some u \<Rightarrow>
          (case subscribeToChanges cl (acc_id u)
                  (fetchBookmarks_begin (acc_id u) (setUser session s)) of
             Inl e \<Rightarrow> throw_error e (fetchBookmarks_begin (acc_id u) (setUser session s))
           | Inr r \<Rightarrow> setLoading False (snd r))
      | None \<Rightarrow> setLoading False (setBookmarks [] (setUser session s)))"

section \<open>\<open>handleLogout\<close> (lines 130 to 134)\<close>

definition handleLogout_begin :: "state \<Rightarrow> state" where
  "handleLogout_begin s = issue SignOut s"

definition handleLogout_reply :: "state \<Rightarrow> state" where
  "handleLogout_reply s = setBookmarks [] (setUser None s)"

definition handleLogout :: "state \<Rightarrow> state" where
  "handleLogout s = handleLogout_reply (handleLogout_begin s)"

section \<open>The scheme test of \<open>addBookmark\<close> (lines 77 to 80)\<close>

text \<open>
  The regular expression \<open>/^https?:\/\//i\<close> has no \<open>u\<close> flag, so a character is
  compared after \<open>Canonicalize\<close>, which upper-cases it unless that would turn a
  character outside ASCII into an ASCII one. The pattern holds ASCII characters only, so
  what \<open>Canonicalize\<close> does outside ASCII cannot make a match; there it is the identity
  here.
\<close>

definition canonicalize :: "char \<Rightarrow> char" where
  "canonicalize c =
     (if (97::nat) \<le> of_char c \<and> of_char c \<le> (122::nat)
      then char_of (of_char c - (32::nat)) else c)"

text \<open>
  \<open>match_chars p u\<close> matches the pattern characters \<open>p\<close> at the head of \<open>u\<close> and returns
  the rest of \<open>u\<close>, or \<open>None\<close> when they do not match.
\<close>

fun match_chars :: "string \<Rightarrow> string \<Rightarrow> string option" where
  "match_chars [] u = Some u"
| "match_chars (p # ps) [] = None"
| "match_chars (p # ps) (c # cs) =
     (if canonicalize c = canonicalize p then match_chars ps cs else None)"

definition matches :: "string \<Rightarrow> string \<Rightarrow> bool" where
  "matches p u = (case match_chars p u of None \<Rightarrow> False | Some _ \<Rightarrow> True)"

text \<open>
  \<open>^\<close> anchors the match at the start, \<open>s?\<close> first tries to take an \<open>s\<close> and falls
  back to taking none.
\<close>

definition scheme_test :: "string \<Rightarrow> bool" where
  "scheme_test u =
     (case match_chars ''http'' u of
        None \<Rightarrow> False
      | Some r \<Rightarrow>
          (case match_chars ''s'' r of
             Some r' \<Rightarrow> matches ''://'' r' \<or> matches ''://'' r
           | None \<Rightarrow> matches ''://'' r))"

definition finalUrl :: "string \<Rightarrow> string" where
  "finalUrl u = (if \<not> scheme_test u then ''https://'' @ u else u)"

text \<open>
  The spec's wording of the same test, written without the regular expression: the url
  carries a scheme when its first seven characters read \<open>http://\<close> or its first eight
  read \<open>https://\<close>, letters compared in lower case.
\<close>

definition lower_case :: "char \<Rightarrow> char" where
  "lower_case c =
     (if (65::nat) \<le> of_char c \<and> of_char c \<le> (90::nat)
      then char_of (of_char c + (32::nat)) else c)"

definition carries_scheme :: "string \<Rightarrow> bool" where
  "carries_scheme u =
     (map lower_case (take 7 u) = ''http://'' \<or> map lower_case (take 8 u) = ''https://'')"

text \<open>Auxiliary notions for comparing the two tests.\<close>

definition starts_with_ci :: "string \<Rightarrow> string \<Rightarrow> bool" where
  "starts_with_ci p u =
     (length p \<le> length u \<and> map canonicalize (take (length p) u) = map canonicalize p)"

definition upper_code :: "nat \<Rightarrow> nat" where
  "upper_code n = (if 97 \<le> n \<and> n \<le> 122 then n - 32 else n)"

definition lower_code :: "nat \<Rightarrow> nat" where
  "lower_code n = (if 65 \<le> n \<and> n \<le> 90 then n + 32 else n)"

section \<open>\<open>addBookmark\<close> (lines 74 to 103)\<close>

text \<open>
  \<open>addBookmark_begin\<close> returns \<open>None\<close> when the guard of line 75 returns, and otherwise
  the value of \<open>bookmarks\<close> that the continuation closes over. In the continuation,
  \<open>data[0]\<close> of an empty array is \<open>undefined\<close>; the list then holds \<open>undefined\<close> and the
  next render throws a TypeError at \<open>bookmark.id\<close>, which is the \<open>Inl\<close> result.
\<close>

definition addBookmark_begin :: "state \<Rightarrow> bookmark list option \<times> state" where
  "addBookmark_begin s =
     (if title s = [] \<or> url s = [] then (None, s)
      else case user s of
        None \<Rightarrow> (None, s)
      | Some u \<Rightarrow>
          (Some (bookmarks s),
           issue (InsertBookmark (title s) (finalUrl (url s)) (acc_id u)) s))"

definition addBookmark_reply ::
    "bookmark list \<Rightarrow> bookmark list option reply \<Rightarrow> state \<Rightarrow> js_error + state" where
  "addBookmark_reply captured r s =
     (case r of
        Inl message \<Rightarrow>
          Inr (alert (''Error adding: '' @ message)
                (console_error (''Error adding: '' @ message) s))
      | Inr data \<Rightarrow>
          (case data of
             None \<Rightarrow> Inr (setUrl [] (setTitle [] s))
           | Some rows \<Rightarrow>
               (case rows of
                  [] \<Rightarrow> Inl (TypeError ''bookmark is undefined'')
                | b # _ \<Rightarrow> Inr (setUrl [] (setTitle [] (setBookmarks (b # captured) s))))))"

definition addBookmark :: "bookmark list option reply \<Rightarrow> state \<Rightarrow> js_error + state" where
  "addBookmark r s =
     (case addBookmark_begin s of
        (None, s') \<Rightarrow> Inr s'
      | (Some captured, s') \<Rightarrow> addBookmark_reply captured r s')"

section \<open>\<open>deleteBookmark\<close> (lines 105 to 119)\<close>

text \<open>
  \<open>deleteBookmark_begin\<close> returns \<open>originalBookmarks\<close>, which the continuation closes
  over, and the state at the \<open>await\<close>.
\<close>

definition deleteBookmark_begin :: "bookmark_id \<Rightarrow> state \<Rightarrow> bookmark list \<times> state" where
  "deleteBookmark_begin i s =
     (bookmarks s,
      issue (DeleteBookmark i)
        (setBookmarks (filter (\<lambda>bookmark. bm_id bookmark \<noteq> i) (bookmarks s)) s))"

definition deleteBookmark_reply :: "bookmark list \<Rightarrow> unit reply \<Rightarrow> state \<Rightarrow> state" where
  "deleteBookmark_reply originalBookmarks r s =
     (case r of
        Inl message \<Rightarrow>
          setBookmarks originalBookmarks
            (alert (''Error deleting: '' @ message)
              (console_error (''Error deleting: '' @ message) s))
      | Inr _ \<Rightarrow> s)"

definition deleteBookmark :: "bookmark_id \<Rightarrow> unit reply \<Rightarrow> state \<Rightarrow> state" where
  "deleteBookmark i r s =
     (case deleteBookmark_begin i s of
        (originalBookmarks, s') \<Rightarrow> deleteBookmark_reply originalBookmarks r s')"

section \<open>Concrete data\<close>

text \<open>
  Two accounts and a table: \<open>X\<close> and \<open>Y\<close> are the bookmarks of the spec's scenario,
  owned by the first account, \<open>X\<close> the younger one; \<open>Z\<close> is the row the server returns
  for \<open>add("Z", "z.com")\<close>; \<open>W\<close> belongs to the second account.
\<close>

definition user_a :: account where
  "user_a = \<lparr>acc_id = ''a'', acc_email = ''a@example.com''\<rparr>"

definition user_b :: account where
  "user_b = \<lparr>acc_id = ''b'', acc_email = ''b@example.com''\<rparr>"

definition bookmark_x :: bookmark where
  "bookmark_x = \<lparr>bm_id = 1, bm_title = ''X'', bm_url = ''https://x.com'',
     bm_user_id = ''a'', bm_created_at = 20\<rparr>"

definition bookmark_y :: bookmark where
  "bookmark_y = \<lparr>bm_id = 2, bm_title = ''Y'', bm_url = ''https://y.com'',
     bm_user_id = ''a'', bm_created_at = 10\<rparr>"

definition bookmark_z :: bookmark where
  "bookmark_z = \<lparr>bm_id = 3, bm_title = ''Z'', bm_url = ''https://z.com'',
     bm_user_id = ''a'', bm_created_at = 30\<rparr>"

definition bookmark_w :: bookmark where
  "bookmark_w = \<lparr>bm_id = 4, bm_title = ''W'', bm_url = ''https://w.org'',
     bm_user_id = ''b'', bm_created_at = 15\<rparr>"

definition table_ab :: "bookmark list" where
  "table_ab = [bookmark_y, bookmark_w, bookmark_x]"

text \<open>
  The first account has logged in and its first load has completed; then the form holds
  \<open>Z\<close> and \<open>z.com\<close>. This is a first subscription, where the two clients agree.
\<close>

definition synced_a :: state where
  "synced_a =
     fetchBookmarks_reply (Inr (Some (select_bookmarks table_ab ''a'')))
       (onAuthStateChange Throwing (Some user_a) initial)"

definition form_filled :: state where
  "form_filled = setUrl ''z.com'' (setTitle ''Z'' synced_a)"

text \<open>
  Two identity events in a row, with no reply in between: the first account twice, and
  the first account followed by the second.
\<close>

definition a_twice :: "client \<Rightarrow> state" where
  "a_twice cl = onAuthStateChange cl (Some user_a) (onAuthStateChange cl (Some user_a) initial)"

definition a_then_b :: "client \<Rightarrow> state" where
  "a_then_b cl = onAuthStateChange cl (Some user_b) (onAuthStateChange cl (Some user_a) initial)"



text \<open>Nobody is logged in and the form holds \<open>Z\<close> and \<open>z.com\<close>.\<close>

definition logged_out_form :: state where
  "logged_out_form = setUrl ''z.com'' (setTitle ''Z'' initial)"

section \<open>Basic facts\<close>

lemmas effect_defs =
  setBookmarks_def setUser_def setLoading_def setTitle_def setUrl_def
  console_error_def alert_def issue_def throw_error_def

lemmas session_defs =
  fetchBookmarks_begin_def fetchBookmarks_reply_def subscribeToChanges_def
  onAuthStateChange_def

lemmas data_defs =
  initial_def user_a_def bookmark_x_def bookmark_y_def bookmark_w_def table_ab_def
  select_bookmarks_def

lemma synced_a_eq:
  "synced_a = \<lparr>user = Some user_a, bookmarks = [bookmark_x, bookmark_y], title = [],
     url = [], loading = False, console = [], alerts = [], channels = [(0, ''a'')],
     next_channel = 1, issued = [(SelectBookmarks ''a'', [])], uncaught = []\<rparr>"
  by (simp add: synced_a_def session_defs effect_defs data_defs)

lemma first_login_any_client:
  "fetchBookmarks_reply (Inr (Some (select_bookmarks table_ab ''a'')))
     (onAuthStateChange cl (Some user_a) initial) = synced_a"
  by (simp add: synced_a_def session_defs effect_defs data_defs)

lemma form_filled_eq:
  "form_filled = \<lparr>user = Some user_a, bookmarks = [bookmark_x, bookmark_y], title = ''Z'',
     url = ''z.com'', loading = False, console = [], alerts = [], channels = [(0, ''a'')],
     next_channel = 1, issued = [(SelectBookmarks ''a'', [])], uncaught = []\<rparr>"
  by (simp add: form_filled_def synced_a_eq effect_defs)

lemma finalUrl_z: "finalUrl ''z.com'' = ''https://z.com''"
  by code_simp

lemma carries_scheme_examples:
  "\<not> carries_scheme ''z.com''" "carries_scheme ''HtTpS://x.com''"
  by code_simp+

section \<open>The two scheme tests agree\<close>

lemma of_char_canonicalize: "(of_char (canonicalize c) :: nat) = upper_code (of_char c)"
proof -
  have "(of_char c :: nat) < 256" by simp
  then have "(of_char c - 32 :: nat) < 256" by arith
  then have "(of_char c - 32 :: nat) mod 256 = of_char c - 32" by simp
  then show ?thesis by (simp add: canonicalize_def upper_code_def)
qed

lemma of_char_lower_case: "(of_char (lower_case c) :: nat) = lower_code (of_char c)"
  by (simp add: lower_case_def lower_code_def)

lemma code_fold: "(upper_code m = upper_code n) = (lower_code m = lower_code n)"
  unfolding upper_code_def lower_code_def by (simp split: if_splits) arith

lemma same_letter: "(canonicalize c = canonicalize p) = (lower_case c = lower_case p)"
proof -
  have "(canonicalize c = canonicalize p)
      = ((of_char (canonicalize c) :: nat) = of_char (canonicalize p))"
    by simp
  also have "\<dots> = ((of_char (lower_case c) :: nat) = of_char (lower_case p))"
    unfolding of_char_canonicalize of_char_lower_case by (rule code_fold)
  also have "\<dots> = (lower_case c = lower_case p)" by simp
  finally show ?thesis .
qed

lemma same_letters:
  "(map canonicalize xs = map canonicalize ys) = (map lower_case xs = map lower_case ys)"
proof (induction xs arbitrary: ys)
  case Nil
  then show ?case by simp
next
  case (Cons x xs)
  then show ?case by (cases ys) (simp_all add: same_letter)
qed

lemma starts_with_ci_lower:
  "starts_with_ci p u = (map lower_case (take (length p) u) = map lower_case p)"
proof -
  have "map lower_case (take (length p) u) = map lower_case p \<Longrightarrow> length p \<le> length u"
  proof -
    assume "map lower_case (take (length p) u) = map lower_case p"
    then have "length (map lower_case (take (length p) u)) = length (map lower_case p)"
      by simp
    then show "length p \<le> length u" by simp
  qed
  then show ?thesis unfolding starts_with_ci_def same_letters by blast
qed

lemma lower_case_patterns:
  "map lower_case ''http://'' = ''http://''" "map lower_case ''https://'' = ''https://''"
  by code_simp+

lemma carries_scheme_ci:
  "carries_scheme u = (starts_with_ci ''http://'' u \<or> starts_with_ci ''https://'' u)"
proof -
  have l: "length ''http://'' = 7" "length ''https://'' = 8" by simp_all
  show ?thesis
    unfolding carries_scheme_def starts_with_ci_lower lower_case_patterns l by (rule refl)
qed

lemma match_chars_eq:
  "match_chars p u = (if starts_with_ci p u then Some (drop (length p) u) else None)"
  by (induction p u rule: match_chars.induct) (auto simp: starts_with_ci_def)

lemma starts_with_ci_append:
  "starts_with_ci (p @ q) u = (starts_with_ci p u \<and> starts_with_ci q (drop (length p) u))"
  by (auto simp: starts_with_ci_def take_add min_def)

lemma scheme_test_carries: "scheme_test u = carries_scheme u"
proof -
  have a: "starts_with_ci ''http://'' u =
      (starts_with_ci ''http'' u \<and> starts_with_ci ''://'' (drop (length ''http'') u))"
    using starts_with_ci_append [of "''http''" "''://''" u] by simp
  have b: "starts_with_ci ''https://'' u =
      (starts_with_ci ''http'' u \<and> starts_with_ci ''s'' (drop (length ''http'') u)
        \<and> starts_with_ci ''://'' (drop (length ''s'') (drop (length ''http'') u)))"
    using starts_with_ci_append [of "''http''" "''s://''" u]
      starts_with_ci_append [of "''s''" "''://''" "drop (length ''http'') u"] by simp
  show ?thesis unfolding carries_scheme_ci a b
    by (auto simp: scheme_test_def matches_def match_chars_eq split: option.splits)
qed

section \<open>Sequences of loads\<close>







section \<open>Optimistic mutation and the moment of the network call\<close>

text \<open>
  C1, as the spec states it: for every add with valid inputs and every remove, the local
  mutation is applied to the Collection before the network call is issued; for add that
  mutation is an insert of a provisional entry at the head. The code does this for
  remove only. At the state \<open>form_filled\<close> (logged in, title \<open>Z\<close>, url \<open>z.com\<close>,
  Collection \<open>[X, Y]\<close>) \<open>addBookmark\<close> passes its guard and sends the insert while the
  Collection is still \<open>[X, Y]\<close>: nothing has been put at its head.
\<close>

theorem add_not_optimistic_counterexample:
  "title form_filled = ''Z'' \<and> url form_filled = ''z.com'' \<and> user form_filled = Some user_a
   \<and> bookmarks form_filled = [bookmark_x, bookmark_y]
   \<and> fst (addBookmark_begin form_filled) = Some [bookmark_x, bookmark_y]
   \<and> bookmarks (snd (addBookmark_begin form_filled)) = [bookmark_x, bookmark_y]
   \<and> issued (snd (addBookmark_begin form_filled)) =
        [(SelectBookmarks ''a'', []),
         (InsertBookmark ''Z'' ''https://z.com'' ''a'', [bookmark_x, bookmark_y])]"
  by (simp add: form_filled_eq addBookmark_begin_def finalUrl_z effect_defs user_a_def)

text \<open>
  C1, amended: \<open>remove(id)\<close>, in every state, takes the entries with that id out of the
  Collection before its delete call is issued (the delete leaves with the filtered
  Collection in place). \<open>add(title, url)\<close> with valid inputs and a logged-in identity
  changes nothing locally before its insert call is issued: no provisional entry exists
  while the insert is pending. The entry appears at the head only once the store has
  confirmed with a row: run with nothing in between, the Collection is then that row
  followed by the Collection from before the add.
\<close>

theorem remove_optimistic_add_deferred:
  "bookmarks (snd (deleteBookmark_begin i s)) = filter (\<lambda>x. bm_id x \<noteq> i) (bookmarks s)
   \<and> issued (snd (deleteBookmark_begin i s))
         = issued s @ [(DeleteBookmark i, filter (\<lambda>x. bm_id x \<noteq> i) (bookmarks s))]
   \<and> (title s \<noteq> [] \<and> url s \<noteq> [] \<and> user s = Some u \<longrightarrow>
         bookmarks (snd (addBookmark_begin s)) = bookmarks s
       \<and> issued (snd (addBookmark_begin s))
           = issued s @ [(InsertBookmark (title s) (finalUrl (url s)) (acc_id u), bookmarks s)]
       \<and> (case addBookmark (Inr (Some (b # rest))) s of
             Inl _ \<Rightarrow> False
           | Inr s1 \<Rightarrow> bookmarks s1 = b # bookmarks s))"
  by (simp add: addBookmark_def addBookmark_begin_def addBookmark_reply_def
      deleteBookmark_begin_def effect_defs)

text \<open>
  The amended C1: at \<open>synced_a\<close>, where the form is empty, removing id 1 leaves \<open>[Y]\<close>
  when the delete is sent; at \<open>form_filled\<close> the insert is sent with \<open>[X, Y]\<close> in place,
  and a confirmed add of \<open>Z\<close> gives \<open>[Z, X, Y]\<close>.
\<close>

theorem remove_optimistic_add_deferred_witness:
  "title synced_a = [] \<and> url synced_a = []
   \<and> bookmarks (snd (deleteBookmark_begin 1 synced_a)) = [bookmark_y]
   \<and> issued (snd (deleteBookmark_begin 1 synced_a))
        = [(SelectBookmarks ''a'', []), (DeleteBookmark 1, [bookmark_y])]
   \<and> title form_filled = ''Z'' \<and> url form_filled = ''z.com'' \<and> user form_filled = Some user_a
   \<and> bookmarks (snd (addBookmark_begin form_filled)) = [bookmark_x, bookmark_y]
   \<and> (case addBookmark (Inr (Some [bookmark_z])) form_filled of
         Inl _ \<Rightarrow> False
       | Inr s1 \<Rightarrow> bookmarks s1 = [bookmark_z, bookmark_x, bookmark_y])"
  using remove_optimistic_add_deferred [of 1 synced_a user_a bookmark_z "[]"]
    remove_optimistic_add_deferred [of 1 form_filled user_a bookmark_z "[]"]
  by (simp add: synced_a_eq form_filled_eq bookmark_x_def bookmark_y_def addBookmark_def
      addBookmark_begin_def addBookmark_reply_def deleteBookmark_begin_def effect_defs)

section \<open>The change-feed subscription\<close>

text \<open>
  C2 says that at most one change-feed subscription is live, that a new subscription
  first tears down the previous one, and that a duplicate identity event leaves no
  additional one. No handler reaches \<open>removeChannel\<close>, because both callers drop the
  closure \<open>subscribeToChanges\<close> returns, so the second call finds the channel of the
  first. Evaluating the listener on the first account followed by the second: with a
  stacking client both callbacks are live on the one channel; with a throwing client the
  handler ends in the error, the second account is current and has no callback, and the
  only live callback is the first account's. In both cases the next change event sends
  the first account's query. On a duplicate event a stacking client holds the callback
  twice and a change event sends the query twice.
\<close>

theorem identity_change_keeps_previous_callback:
  "channels (a_then_b Stacking) = [(0, ''a''), (0, ''b'')]
   \<and> user (a_then_b Stacking) = Some user_b
   \<and> issued (feed_event (a_then_b Stacking))
        = [(SelectBookmarks ''a'', []), (SelectBookmarks ''b'', []),
           (SelectBookmarks ''a'', []), (SelectBookmarks ''b'', [])]
   \<and> channels (a_then_b Throwing) = [(0, ''a'')]
   \<and> user (a_then_b Throwing) = Some user_b
   \<and> uncaught (a_then_b Throwing) = [ChannelError]
   \<and> issued (feed_event (a_then_b Throwing))
        = [(SelectBookmarks ''a'', []), (SelectBookmarks ''b'', []),
           (SelectBookmarks ''a'', [])]
   \<and> channels (a_twice Stacking) = [(0, ''a''), (0, ''a'')]
   \<and> issued (feed_event (a_twice Stacking))
        = [(SelectBookmarks ''a'', []), (SelectBookmarks ''a'', []),
           (SelectBookmarks ''a'', []), (SelectBookmarks ''a'', [])]
   \<and> channels (a_twice Throwing) = [(0, ''a'')]
   \<and> uncaught (a_twice Throwing) = [ChannelError]"
  by (simp add: a_then_b_def a_twice_def feed_event_def session_defs effect_defs data_defs
      user_b_def)

text \<open>
  C3 says that when the identity becomes none the subscription is torn down and the
  Collection is cleared. Evaluating the listener and \<open>handleLogout\<close> at \<open>synced_a\<close>, for
  either client: the Collection is cleared and the user is none, but the channel of the
  first account stays live, and the next change event still sends that account's query.
\<close>

theorem logout_keeps_channel:
  "channels synced_a = [(0, ''a'')]
   \<and> bookmarks (onAuthStateChange cl None synced_a) = []
   \<and> user (onAuthStateChange cl None synced_a) = None
   \<and> channels (onAuthStateChange cl None synced_a) = [(0, ''a'')]
   \<and> bookmarks (handleLogout synced_a) = []
   \<and> channels (handleLogout synced_a) = [(0, ''a'')]
   \<and> issued (feed_event (onAuthStateChange cl None synced_a))
        = [(SelectBookmarks ''a'', []), (SelectBookmarks ''a'', [])]"
  by (simp add: synced_a_eq session_defs effect_defs handleLogout_def handleLogout_begin_def
      handleLogout_reply_def feed_event_def)

section \<open>Failures\<close>

text \<open>
  C4: when the store rejects \<open>remove(id)\<close>, the Collection is set back to the snapshot
  taken before the optimistic removal, whatever happened to the state \<open>s'\<close> while the
  delete was pending, and the error is shown by \<open>alert\<close>. An entry with that id which
  was in the Collection is taken out by the optimistic removal and is back, unchanged,
  after the rejection.
\<close>

theorem delete_rejected_restores_snapshot:
  "fst (deleteBookmark_begin i s) = bookmarks s
   \<and> bookmarks (deleteBookmark_reply (fst (deleteBookmark_begin i s)) (Inl m) s') = bookmarks s
   \<and> alerts (deleteBookmark_reply (fst (deleteBookmark_begin i s)) (Inl m) s')
        = alerts s' @ [''Error deleting: '' @ m]
   \<and> bookmarks (deleteBookmark i (Inl m) s) = bookmarks s
   \<and> alerts (deleteBookmark i (Inl m) s) = alerts s @ [''Error deleting: '' @ m]
   \<and> (b \<in> set (bookmarks s) \<and> bm_id b = i \<longrightarrow>
        b \<notin> set (bookmarks (snd (deleteBookmark_begin i s)))
        \<and> b \<in> set (bookmarks (deleteBookmark i (Inl m) s)))"
  by (simp add: deleteBookmark_def deleteBookmark_begin_def deleteBookmark_reply_def
      effect_defs)

text \<open>
  C4 at \<open>synced_a\<close>: removing \<open>X\<close> (id 1) leaves \<open>[Y]\<close>; the rejection brings back
  \<open>[X, Y]\<close> and shows the message.
\<close>

theorem delete_rejected_restores_snapshot_witness:
  "bookmark_x \<in> set (bookmarks synced_a) \<and> bm_id bookmark_x = 1
   \<and> bookmarks (snd (deleteBookmark_begin 1 synced_a)) = [bookmark_y]
   \<and> bookmarks (deleteBookmark 1 (Inl ''denied'') synced_a) = [bookmark_x, bookmark_y]
   \<and> alerts (deleteBookmark 1 (Inl ''denied'') synced_a) = [''Error deleting: denied'']"
  using delete_rejected_restores_snapshot [of 1 synced_a "''denied''" synced_a bookmark_x]
  by (simp add: synced_a_eq deleteBookmark_begin_def effect_defs bookmark_x_def
      bookmark_y_def)

text \<open>
  C5: when the query of a load fails, the failure is written to the console and nothing
  else changes: the Collection, the user, the loading flag, the channels and the alerts
  are what they were, and the handler returns a state.
\<close>

theorem fetch_failure_keeps_state:
  "fetchBookmarks_reply (Inl e) s = s\<lparr>console := console s @ [''Error fetching: '' @ e]\<rparr>
   \<and> bookmarks (fetchBookmarks userId (Inl e) s) = bookmarks s
   \<and> user (fetchBookmarks userId (Inl e) s) = user s
   \<and> loading (fetchBookmarks userId (Inl e) s) = loading s
   \<and> channels (fetchBookmarks userId (Inl e) s) = channels s
   \<and> alerts (fetchBookmarks userId (Inl e) s) = alerts s
   \<and> console (fetchBookmarks userId (Inl e) s) = console s @ [''Error fetching: '' @ e]"
  by (simp add: fetchBookmarks_def fetchBookmarks_reply_def fetchBookmarks_begin_def
      effect_defs)

text \<open>
  C9: when the store rejects an add, the continuation only writes the message to the
  console and shows it by \<open>alert\<close>, in whatever state \<open>s'\<close> the reply finds. Run without
  interleaving from a state that passes the guard, the Collection is the one before the
  add (it holds no provisional entry), and exactly one insert has been sent: there is no
  retry.
\<close>

theorem add_rejected_keeps_collection:
  assumes "title s \<noteq> []" and "url s \<noteq> []" and "user s = Some u"
  shows "addBookmark_reply captured (Inl m) s' =
           Inr (s'\<lparr>console := console s' @ [''Error adding: '' @ m],
                   alerts := alerts s' @ [''Error adding: '' @ m]\<rparr>)
   \<and> addBookmark (Inl m) s =
           Inr (s\<lparr>console := console s @ [''Error adding: '' @ m],
                  alerts := alerts s @ [''Error adding: '' @ m],
                  issued := issued s @
                    [(InsertBookmark (title s) (finalUrl (url s)) (acc_id u), bookmarks s)]\<rparr>)"
  using assms
  by (simp add: addBookmark_def addBookmark_begin_def addBookmark_reply_def effect_defs)

text \<open>C9 at \<open>form_filled\<close>, with the message \<open>denied\<close>.\<close>

theorem add_rejected_keeps_collection_witness:
  "title form_filled = ''Z'' \<and> url form_filled = ''z.com'' \<and> user form_filled = Some user_a
   \<and> addBookmark (Inl ''denied'') form_filled =
        Inr (form_filled\<lparr>console := [''Error adding: denied''],
               alerts := [''Error adding: denied''],
               issued := [(SelectBookmarks ''a'', []),
                 (InsertBookmark ''Z'' ''https://z.com'' ''a'', [bookmark_x, bookmark_y])]\<rparr>)"
  using add_rejected_keeps_collection [of form_filled user_a "[]" "''denied''" form_filled]
  by (simp add: form_filled_eq finalUrl_z user_a_def)

section \<open>The url that add persists\<close>

text \<open>
  C6: the url that add sends to the store is the input unchanged when the input carries
  \<open>http://\<close> or \<open>https://\<close> in any case, and \<open>https://\<close> followed by the input
  otherwise. The test of the code (\<open>scheme_test\<close>, inside \<open>finalUrl\<close>) agrees with the
  spec's wording (\<open>carries_scheme\<close>) on every string.
\<close>

theorem add_persists_normalized_url:
  assumes "title s \<noteq> []" and "url s \<noteq> []" and "user s = Some u"
  shows "finalUrl (url s) = (if carries_scheme (url s) then url s else ''https://'' @ url s)
   \<and> issued (snd (addBookmark_begin s)) = issued s @
        [(InsertBookmark (title s)
            (if carries_scheme (url s) then url s else ''https://'' @ url s) (acc_id u),
          bookmarks s)]"
  using assms
  by (simp add: addBookmark_begin_def finalUrl_def scheme_test_carries effect_defs)

text \<open>
  C6 at \<open>form_filled\<close>: \<open>z.com\<close> is sent as \<open>https://z.com\<close>, and \<open>HtTpS://x.com\<close> is
  sent as it is.
\<close>

theorem add_persists_normalized_url_witness:
  "title form_filled = ''Z'' \<and> url form_filled = ''z.com'' \<and> user form_filled = Some user_a
   \<and> issued (snd (addBookmark_begin form_filled)) =
        [(SelectBookmarks ''a'', []),
         (InsertBookmark ''Z'' ''https://z.com'' ''a'', [bookmark_x, bookmark_y])]
   \<and> issued (snd (addBookmark_begin (setUrl ''HtTpS://x.com'' form_filled))) =
        [(SelectBookmarks ''a'', []),
         (InsertBookmark ''Z'' ''HtTpS://x.com'' ''a'', [bookmark_x, bookmark_y])]"
  using add_persists_normalized_url [of form_filled user_a]
    add_persists_normalized_url [of "setUrl ''HtTpS://x.com'' form_filled" user_a]
  by (simp add: form_filled_eq carries_scheme_examples user_a_def effect_defs)

section \<open>Loads\<close>




section \<open>Add followed by remove\<close>

text \<open>
  C8: from a state that passes the guard of add, a confirmed add followed at once by
  remove of the id of the confirmed row gives back the Collection from before the add,
  already when the delete is sent and also after the delete has succeeded. The id the
  store assigned is new: no entry of the Collection has it.
\<close>

theorem add_then_remove_round_trip:
  assumes "title s \<noteq> []" and "url s \<noteq> []" and "user s = Some u"
    and "list_all (\<lambda>x. bm_id x \<noteq> bm_id b) (bookmarks s)"
  shows "(case addBookmark (Inr (Some (b # rest))) s of
            Inl _ \<Rightarrow> False
          | Inr s1 \<Rightarrow>
              bookmarks s1 = b # bookmarks s
              \<and> bookmarks (snd (deleteBookmark_begin (bm_id b) s1)) = bookmarks s
              \<and> bookmarks (deleteBookmark (bm_id b) (Inr ()) s1) = bookmarks s)"
proof -
  have keep: "filter (\<lambda>x. bm_id x \<noteq> bm_id b) (bookmarks s) = bookmarks s"
    using assms(4) by (simp add: list_all_iff)
  show ?thesis
    using assms(1-3) keep
    by (simp add: addBookmark_def addBookmark_begin_def addBookmark_reply_def
        deleteBookmark_def deleteBookmark_begin_def deleteBookmark_reply_def effect_defs)
qed

text \<open>
  C8 at \<open>form_filled\<close>: the store confirms \<open>Z\<close> with id 3, the Collection becomes
  \<open>[Z, X, Y]\<close>, and removing id 3 gives \<open>[X, Y]\<close> again.
\<close>

theorem add_then_remove_round_trip_witness:
  "title form_filled = ''Z'' \<and> url form_filled = ''z.com'' \<and> user form_filled = Some user_a
   \<and> bm_id bookmark_z = 3 \<and> map bm_id (bookmarks form_filled) = [1, 2]
   \<and> (case addBookmark (Inr (Some [bookmark_z])) form_filled of
         Inl _ \<Rightarrow> False
       | Inr s1 \<Rightarrow>
           bookmarks s1 = [bookmark_z, bookmark_x, bookmark_y]
           \<and> bookmarks (snd (deleteBookmark_begin 3 s1)) = [bookmark_x, bookmark_y]
           \<and> bookmarks (deleteBookmark 3 (Inr ()) s1) = [bookmark_x, bookmark_y])"
  using add_then_remove_round_trip [of form_filled user_a bookmark_z "[]"]
  by (simp add: form_filled_eq bookmark_x_def bookmark_y_def bookmark_z_def
      addBookmark_def addBookmark_begin_def addBookmark_reply_def deleteBookmark_def
      deleteBookmark_begin_def deleteBookmark_reply_def effect_defs)

section \<open>The guard of add\<close>

text \<open>
  C10: add does nothing when the title is empty, when the url is empty, and also when
  nobody is logged in: no request is sent and the state is the one it started from.
\<close>

theorem add_guard_no_op:
  assumes "title s = [] \<or> url s = [] \<or> user s = None"
  shows "addBookmark_begin s = (None, s) \<and> addBookmark r s = Inr s"
  using assms by (auto simp: addBookmark_begin_def addBookmark_def)

text \<open>
  C10 at \<open>logged_out_form\<close>: title and url are filled in and nobody is logged in; even
  with a store ready to confirm, add leaves the state as it is.
\<close>

theorem add_guard_no_op_witness:
  "title logged_out_form = ''Z'' \<and> url logged_out_form = ''z.com''
   \<and> user logged_out_form = None
   \<and> addBookmark_begin logged_out_form = (None, logged_out_form)
   \<and> addBookmark (Inr (Some [bookmark_z])) logged_out_form = Inr logged_out_form"
  using add_guard_no_op [of logged_out_form "Inr (Some [bookmark_z])"]
  by (simp add: logged_out_form_def initial_def effect_defs)

end
